theory Spec2Isabelle
  imports Complex_Main
begin

section \<open>Values that cross the HTTP boundary\<close>

text \<open>
  The backend is a set of Express route handlers in \<^verbatim>\<open>backend/index.js\<close>. Each
  handler reads fields of the JSON body, path parameters and the verified token payload,
  runs SQL statements on an Oracle connection and sends one response.

  A field of the JSON body is absent (\<^verbatim>\<open>undefined\<close>), \<^verbatim>\<open>null\<close>, a boolean, a number or a
  string. Numbers are modelled as exact rationals: the rounding of IEEE doubles is not
  part of the model. \<^verbatim>\<open>NaN\<close> is the value \<open>None\<close> of \<open>rat option\<close>.
  Arrays and nested objects as field values are outside the model.
\<close>

datatype jsval = JUndefined | JNull | JBool bool | JNum rat | JStr string

text \<open>JavaScript truthiness, as used by \<^verbatim>\<open>!x\<close>.\<close>

fun truthy :: "jsval \<Rightarrow> bool" where
  "truthy JUndefined = False"
| "truthy JNull = False"
| "truthy (JBool b) = b"
| "truthy (JNum r) = (r \<noteq> 0)"
| "truthy (JStr s) = (s \<noteq> [])"

text \<open>\<^verbatim>\<open>x == null\<close> holds for \<^verbatim>\<open>undefined\<close> and \<^verbatim>\<open>null\<close> only.\<close>

fun loosely_null :: "jsval \<Rightarrow> bool" where
  "loosely_null JUndefined = True"
| "loosely_null JNull = True"
| "loosely_null _ = False"

subsection \<open>Numeric strings\<close>

text \<open>
  \<^verbatim>\<open>Number(s)\<close> on a string: surrounding white space is dropped, the empty string is
  \<open>0\<close>, and a signed decimal literal with an optional fraction is its value. The forms
  with an exponent, a radix prefix or \<^verbatim>\<open>Infinity\<close> are not modelled and read as \<^verbatim>\<open>NaN\<close>
  here; no statement below depends on the value of a string.
\<close>

definition is_digit :: "char \<Rightarrow> bool" where
  "is_digit c = (c \<in> set ''0123456789'')"

definition digit_val :: "char \<Rightarrow> nat" where
  "digit_val c = of_char c - 48"

definition is_space :: "char \<Rightarrow> bool" where
  "is_space c = (c \<in> set [CHR '' '', CHR 0x09, CHR 0x0A, CHR 0x0B, CHR 0x0C, CHR 0x0D])"

definition digits_val :: "string \<Rightarrow> nat" where
  "digits_val ds = foldl (\<lambda>n c. 10 * n + digit_val c) 0 ds"

definition trim :: "string \<Rightarrow> string" where
  "trim s = rev (dropWhile is_space (rev (dropWhile is_space s)))"

definition unsigned_decimal :: "string \<Rightarrow> rat option" where
  "unsigned_decimal s =
     (let ip = takeWhile is_digit s; rest = dropWhile is_digit s in
      case rest of
        [] \<Rightarrow> (if ip = [] then None else Some (of_nat (digits_val ip)))
      | c # fp \<Rightarrow>
          (if c = CHR ''.'' \<and> list_all is_digit fp \<and> (ip \<noteq> [] \<or> fp \<noteq> [])
           then Some (of_nat (digits_val ip) + of_nat (digits_val fp) / 10 ^ length fp)
           else None))"

definition signed_decimal :: "string \<Rightarrow> rat option" where
  "signed_decimal s =
     (case s of
        [] \<Rightarrow> None
      | c # cs \<Rightarrow>
          (if c = CHR ''-'' then map_option uminus (unsigned_decimal cs)
           else if c = CHR ''+'' then unsigned_decimal cs
           else unsigned_decimal s))"

definition StringToNumber :: "string \<Rightarrow> rat option" where
  "StringToNumber s = (let t = trim s in if t = [] then Some 0 else signed_decimal t)"

text \<open>\<^verbatim>\<open>Number(x)\<close>.\<close>

fun Number_js :: "jsval \<Rightarrow> rat option" where
  "Number_js JUndefined = None"
| "Number_js JNull = Some 0"
| "Number_js (JBool b) = Some (if b then 1 else 0)"
| "Number_js (JNum r) = Some r"
| "Number_js (JStr s) = StringToNumber s"

text \<open>\<^verbatim>\<open>x <= 0\<close> and \<^verbatim>\<open>x > 0\<close> on a body field: the field is converted to a number, and any
  comparison with \<^verbatim>\<open>NaN\<close> is false.\<close>

definition js_le_zero :: "jsval \<Rightarrow> bool" where
  "js_le_zero v = (case Number_js v of None \<Rightarrow> False | Some r \<Rightarrow> r \<le> 0)"

subsection \<open>Token payload and responses\<close>

text \<open>The payload signed at login: \<^verbatim>\<open>{ userId, primaryId, userType }\<close>.\<close>

record user =
  userId :: string
  primaryId :: string
  userType :: string

text \<open>What \<^verbatim>\<open>authenticateToken\<close> finds in the \<^verbatim>\<open>Authorization\<close> header: no token,
  a token that \<^verbatim>\<open>jwt.verify\<close> rejects, or a token with its payload.\<close>

datatype token = NoToken | InvalidToken | ValidToken user

text \<open>
  A message is a template string: text pieces and interpolated values. \<open>Num\<close> is a
  number rendered by \<^verbatim>\<open>toLocaleString()\<close>, \<open>Val\<close> a body field appended by string
  concatenation. The currency sign of the source's messages is written \<^verbatim>\<open>Rs\<close>, and a line
  break with its indentation inside a template is written as one space.
\<close>

datatype frag = Txt string | Num rat | Val jsval

type_synonym message = "frag list"

datatype field = FNum rat | FStr string | FNat nat

section \<open>The store\<close>

text \<open>
  The repository holds no DDL; its README asks for the tables to be created after the
  queries of \<^verbatim>\<open>index.js\<close>. A table is the list of its rows, a row a record of the columns
  that the statements name. A column that an \<^verbatim>\<open>INSERT\<close> leaves out is \<^verbatim>\<open>NULL\<close> (\<open>None\<close>).
  Columns of the same name in different tables carry the table's letter as a prefix.
  A calendar date from \<^verbatim>\<open>TO_DATE(s, 'YYYY-MM-DD')\<close> is a triple (year, month, day); a
  JavaScript \<^verbatim>\<open>Date\<close> is its number of milliseconds since the epoch.
\<close>

type_synonym date = "nat \<times> nat \<times> nat"

record campaign_row =
  CAMP_ID :: string
  C_NAME :: string
  STATUS :: string
  SDATE :: date
  EDATE :: date
  GOAL_AMOUNT :: rat
  MANAGER_STAFF_ID :: string
  AMOUNT_COLLECTED :: "rat option"

record project_row =
  PROJ_ID :: string
  PNAME :: string
  BUDGET :: rat
  SPENT :: rat
  P_STATUS :: string
  P_SDATE :: date
  OVERSEER_STAFF_ID :: string
  P_CAMP_ID :: "string option"

record donation_row =
  D_ID :: "string option"
  DON_ID :: "nat option"
  DONOR_ID :: string
  D_CAMP_ID :: string
  AMOUNT :: rat
  PAYMENT_METHOD :: "string option"
  DONATION_DATE :: "nat option"
  DON_DATE :: "nat option"

record donor_row =
  R_DONOR_ID :: string
  R_USER_ID :: string
  R_FNAME :: "string option"
  R_LNAME :: "string option"

record staff_row =
  STAFF_ID :: string
  S_USER_ID :: string
  S_FNAME :: "string option"
  S_LNAME :: "string option"
  DOJ :: nat

record credentials_row =
  USER_ID :: string
  AADHAR_NO :: string
  PASSWORD :: string
  EMAIL :: string
  USER_TYPE :: string

record db =
  NEW_CREDENTIALS :: "credentials_row list"
  STAFF :: "staff_row list"
  DONOR :: "donor_row list"
  CAMPAIGN :: "campaign_row list"
  PROJECT :: "project_row list"
  DONATION :: "donation_row list"
  DONATION_SEQ :: nat

text \<open>An error thrown by \<^verbatim>\<open>connection.execute\<close>: an Oracle error with its
  \<^verbatim>\<open>errorNum\<close>, or an error of the driver, which has none.\<close>

datatype ora_error = ORA nat | DriverError

section \<open>Responses\<close>

text \<open>The row that the first receipt query selects.\<close>

record receipt =
  rc_D_ID :: "string option"
  rc_DONOR_ID :: string
  rc_AMOUNT :: rat
  rc_DONATION_DATE :: "nat option"
  rc_PAYMENT_METHOD :: "string option"
  CAMPAIGN_NAME :: string
  DONOR_NAME :: string
  DONOR_EMAIL :: string

text \<open>The row that the second receipt query selects.\<close>

record receipt2 =
  rc2_D_ID :: "string option"
  rc2_DONOR_ID :: string
  rc2_AMOUNT :: rat
  rc2_DONATION_DATE :: "nat option"
  rc2_C_NAME :: string
  rc2_CAMP_ID :: string
  DONOR_FNAME :: "string option"
  DONOR_LNAME :: "string option"

text \<open>
  The JSON bodies that the handlers send: the text of \<^verbatim>\<open>res.sendStatus\<close>, a
  \<^verbatim>\<open>{ message }\<close> object, a message with one more member, the body of a successful
  signup, a receipt of either query, and the project list with each row's \<^verbatim>\<open>SPENDING_PERCENT\<close>.
\<close>

datatype body =
    Plain string
  | Message message
  | MessageWith message string field
  | Registered message string string
  | DonationBody receipt
  | DonationBody2 receipt2
  | ProjectsBody "(project_row \<times> rat) list"

record response =
  status :: nat
  body :: body

definition reply :: "nat \<Rightarrow> body \<Rightarrow> response" where
  "reply c b = \<lparr>status = c, body = b\<rparr>"

definition apostrophe :: string where
  "apostrophe = [CHR 0x27]"

section \<open>Middleware\<close>

text \<open>
  \<^verbatim>\<open>authenticateToken\<close> answers 401 without a token and 403 when verification fails;
  otherwise it attaches the payload as \<^verbatim>\<open>req.user\<close> and calls \<^verbatim>\<open>next()\<close>.
\<close>

definition authenticateToken :: "token \<Rightarrow> response + user" where
  "authenticateToken t =
     (case t of
        NoToken \<Rightarrow> Inl (reply 401 (Plain ''Unauthorized''))
      | InvalidToken \<Rightarrow> Inl (reply 403 (Plain ''Forbidden''))
      | ValidToken u \<Rightarrow> Inr u)"

text \<open>\<^verbatim>\<open>authorizeStaff\<close> and \<^verbatim>\<open>authorizeDonor\<close>: \<open>None\<close> is the call of \<^verbatim>\<open>next()\<close>.\<close>

definition authorizeStaff :: "user \<Rightarrow> response option" where
  "authorizeStaff u =
     (if userType u = ''STAFF'' then None
      else Some (reply 403 (Message [Txt ''Access denied. Staff role required.''])))"

definition authorizeDonor :: "user \<Rightarrow> response option" where
  "authorizeDonor u =
     (if userType u = ''DONOR'' then None
      else Some (reply 403 (Message [Txt ''Access denied. Donor role required.''])))"

text \<open>A route guarded by \<^verbatim>\<open>authenticateToken\<close> alone, and one guarded by a role check
  as well. A middleware that answers ends the request with the store untouched.\<close>

definition authenticated ::
  "token \<Rightarrow> (user \<Rightarrow> db \<Rightarrow> response \<times> db) \<Rightarrow> db \<Rightarrow> response \<times> db" where
  "authenticated t h d =
     (case authenticateToken t of Inl r \<Rightarrow> (r, d) | Inr u \<Rightarrow> h u d)"

definition guarded ::
  "token \<Rightarrow> (user \<Rightarrow> response option) \<Rightarrow> (user \<Rightarrow> db \<Rightarrow> response \<times> db) \<Rightarrow> db
     \<Rightarrow> response \<times> db" where
  "guarded t authorize h d =
     authenticated t (\<lambda>u d'. case authorize u of Some r \<Rightarrow> (r, d') | None \<Rightarrow> h u d') d"

section \<open>Project expenses\<close>

text \<open>
  \<^verbatim>\<open>PATCH /api/projects/:projId/expense\<close> is registered twice. Both handlers validate
  \<^verbatim>\<open>expenseAmount\<close>, select the project, refuse an expense that would take \<^verbatim>\<open>SPENT\<close>
  above \<^verbatim>\<open>BUDGET\<close>, and otherwise write the new total. The second one also sets
  \<^verbatim>\<open>STATUS\<close> to \<^verbatim>\<open>'Completed'\<close> when the new total reaches the budget, and prints
  \<^verbatim>\<open>Math.max(0, remainingBudget)\<close>.
\<close>

definition select_project :: "string \<Rightarrow> db \<Rightarrow> project_row list" where
  "select_project projId d = filter (\<lambda>p. PROJ_ID p = projId) (PROJECT d)"

definition update_spent :: "string \<Rightarrow> rat \<Rightarrow> db \<Rightarrow> db" where
  "update_spent projId newSpent d =
     d\<lparr>PROJECT :=
         map (\<lambda>p. if PROJ_ID p = projId then p\<lparr>SPENT := newSpent\<rparr> else p) (PROJECT d)\<rparr>"

definition update_spent_status :: "string \<Rightarrow> rat \<Rightarrow> db \<Rightarrow> db" where
  "update_spent_status projId newSpent d =
     d\<lparr>PROJECT :=
         map (\<lambda>p. if PROJ_ID p = projId
                  then p\<lparr>SPENT := newSpent,
                         P_STATUS := (if newSpent \<ge> BUDGET p then ''Completed''
                                      else P_STATUS p)\<rparr>
                  else p) (PROJECT d)\<rparr>"

definition invalid_expense :: "jsval \<Rightarrow> bool" where
  "invalid_expense expenseAmount =
     (loosely_null expenseAmount \<or> Number_js expenseAmount = None
        \<or> js_le_zero expenseAmount)"

definition expense_added :: "rat \<Rightarrow> project_row \<Rightarrow> rat \<Rightarrow> response" where
  "expense_added amountToAdd project newSpent =
     reply 200 (MessageWith
       [Txt ''Expense of Rs'', Num amountToAdd, Txt '' successfully added to project '',
        Txt (apostrophe @ PNAME project @ apostrophe), Txt ''.'']
       ''newSpentTotal'' (FNum newSpent))"

definition expense_handler_1 :: "string \<Rightarrow> jsval \<Rightarrow> db \<Rightarrow> response \<times> db" where
  "expense_handler_1 projId expenseAmount d =
     (if invalid_expense expenseAmount
      then (reply 400 (Message [Txt ''Invalid expense amount provided.'']), d)
      else
        let amountToAdd = the (Number_js expenseAmount) in
        case select_project projId d of
          [] \<Rightarrow> (reply 404 (Message [Txt ''Project not found.'']), d)
        | project # _ \<Rightarrow>
            let newSpent = SPENT project + amountToAdd in
            if newSpent > BUDGET project
            then
              let remainingBudget = BUDGET project - SPENT project in
              (reply 400 (Message
                 [Txt ''Expense blocked. This project's budget is Rs'', Num (BUDGET project),
                  Txt ''. It has Rs'', Num remainingBudget,
                  Txt '' remaining. Your expense of Rs'', Num amountToAdd,
                  Txt '' would exceed the limit.'']), d)
            else (expense_added amountToAdd project newSpent,
                  update_spent projId newSpent d))"

definition expense_handler_2 :: "string \<Rightarrow> jsval \<Rightarrow> db \<Rightarrow> response \<times> db" where
  "expense_handler_2 projId expenseAmount d =
     (if invalid_expense expenseAmount
      then (reply 400 (Message [Txt ''Invalid expense amount provided.'']), d)
      else
        let amountToAdd = the (Number_js expenseAmount) in
        case select_project projId d of
          [] \<Rightarrow> (reply 404 (Message [Txt ''Project not found.'']), d)
        | project # _ \<Rightarrow>
            let newSpent = SPENT project + amountToAdd in
            if newSpent > BUDGET project
            then
              let remainingBudget = BUDGET project - SPENT project in
              (reply 400 (Message
                 [Txt ''Expense blocked. This project's total budget is Rs'',
                  Num (BUDGET project),
                  Txt ''. It has Rs'', Num (max 0 remainingBudget),
                  Txt '' remaining. Your expense of Rs'', Num amountToAdd,
                  Txt '' would exceed the limit.'']), d)
            else (expense_added amountToAdd project newSpent,
                  update_spent_status projId newSpent d))"

text \<open>
  The two registrations with their middleware. Express runs the handlers of a path in
  the order of registration and goes on to the next one only when a handler calls
  \<^verbatim>\<open>next()\<close>; the first expense handler answers on every path, so it is the one that
  serves the route.
\<close>

definition patch_expense_1 :: "token \<Rightarrow> string \<Rightarrow> jsval \<Rightarrow> db \<Rightarrow> response \<times> db" where
  "patch_expense_1 t projId expenseAmount d =
     guarded t authorizeStaff (\<lambda>u. expense_handler_1 projId expenseAmount) d"

definition patch_expense_2 :: "token \<Rightarrow> string \<Rightarrow> jsval \<Rightarrow> db \<Rightarrow> response \<times> db" where
  "patch_expense_2 t projId expenseAmount d =
     guarded t authorizeStaff (\<lambda>u. expense_handler_2 projId expenseAmount) d"

definition patch_projects_expense :: "token \<Rightarrow> string \<Rightarrow> jsval \<Rightarrow> db \<Rightarrow> response \<times> db" where
  "patch_projects_expense = patch_expense_1"

text \<open>A sequence of expense requests, each a token, a project id and the body field,
  served one after the other by a handler \<open>h\<close>.\<close>

type_synonym expense_call = "token \<times> string \<times> jsval"

fun run_expenses ::
  "(token \<Rightarrow> string \<Rightarrow> jsval \<Rightarrow> db \<Rightarrow> response \<times> db) \<Rightarrow> db \<Rightarrow> expense_call list \<Rightarrow> db" where
  "run_expenses h d [] = d"
| "run_expenses h d ((t, projId, expenseAmount) # cs) =
     run_expenses h (snd (h t projId expenseAmount d)) cs"

section \<open>Project progress\<close>

text \<open>
  \<^verbatim>\<open>GET /api/projects/progress\<close> selects every project with
  \<^verbatim>\<open>ROUND((SPENT / BUDGET) * 100, 2) AS SPENDING_PERCENT\<close>, ordered by \<^verbatim>\<open>SPENT DESC\<close>, and
  then recomputes \<^verbatim>\<open>SPENDING_PERCENT\<close> in JavaScript for each row that came back.
  Oracle raises ORA-01476 when a divisor is zero, which fails the whole statement.
  Both \<^verbatim>\<open>ROUND(x, 2)\<close> and \<^verbatim>\<open>toFixed(2)\<close> round to two decimals, halves away from zero.
\<close>

definition round2 :: "rat \<Rightarrow> rat" where
  "round2 x = sgn x * of_int \<lfloor>\<bar>x\<bar> * 100 + 1 / 2\<rfloor> / 100"

definition ora_divide :: "rat \<Rightarrow> rat \<Rightarrow> ora_error + rat" where
  "ora_divide x y = (if y = 0 then Inl (ORA 1476) else Inr (x / y))"

fun progress_rows :: "project_row list \<Rightarrow> ora_error + (project_row \<times> rat) list" where
  "progress_rows [] = Inr []"
| "progress_rows (p # ps) =
     (case ora_divide (SPENT p) (BUDGET p) of
        Inl e \<Rightarrow> Inl e
      | Inr q \<Rightarrow>
          (case progress_rows ps of
             Inl e \<Rightarrow> Inl e
           | Inr rows \<Rightarrow> Inr ((p, round2 (q * 100)) # rows)))"

definition select_progress :: "db \<Rightarrow> ora_error + (project_row \<times> rat) list" where
  "select_progress d = progress_rows (sort_key (\<lambda>p. - SPENT p) (PROJECT d))"

definition SPENDING_PERCENT :: "project_row \<Rightarrow> rat" where
  "SPENDING_PERCENT project =
     (if BUDGET project > 0 then round2 (SPENT project / BUDGET project * 100) else 0)"

definition progress_handler :: "db \<Rightarrow> response \<times> db" where
  "progress_handler d =
     (case select_progress d of
        Inl e \<Rightarrow> (reply 500 (Message [Txt ''Failed to retrieve project progress data.'']), d)
      | Inr rows \<Rightarrow>
          (reply 200 (ProjectsBody (map (\<lambda>(project, _). (project, SPENDING_PERCENT project)) rows)),
           d))"

definition get_projects_progress :: "token \<Rightarrow> db \<Rightarrow> response \<times> db" where
  "get_projects_progress t d = authenticated t (\<lambda>u. progress_handler) d"

section \<open>Recording a donation\<close>

text \<open>
  \<^verbatim>\<open>generateUniqueId(prefix)\<close> is \<^verbatim>\<open>prefix + '_' + Date.now()\<close>; the clock value is an
  argument of the handlers that call it.
\<close>

definition digit_char :: "nat \<Rightarrow> char" where
  "digit_char n = ''0123456789'' ! n"

fun show_nat :: "nat \<Rightarrow> string" where
  "show_nat n =
     (if n < 10 then [digit_char n] else show_nat (n div 10) @ [digit_char (n mod 10)])"

declare show_nat.simps [simp del]

definition generateUniqueId :: "string \<Rightarrow> nat \<Rightarrow> string" where
  "generateUniqueId prefix now = prefix @ ''_'' @ show_nat now"

text \<open>A string field of the body: \<open>None\<close> when it is absent or \<^verbatim>\<open>null\<close>. \<^verbatim>\<open>!x\<close> holds
  for these and for the empty string.\<close>

definition missing :: "string option \<Rightarrow> bool" where
  "missing x = (x = None \<or> x = Some [])"

text \<open>
  A body field bound to a \<^verbatim>\<open>NUMBER\<close> column: a number is stored as it is, a string is
  converted by Oracle (ORA-01722 when it is no number), and the driver refuses the rest.
\<close>

definition bind_number :: "jsval \<Rightarrow> ora_error + rat" where
  "bind_number v =
     (case v of
        JNum r \<Rightarrow> Inr r
      | JStr s \<Rightarrow> (case signed_decimal (trim s) of None \<Rightarrow> Inl (ORA 1722) | Some r \<Rightarrow> Inr r)
      | _ \<Rightarrow> Inl DriverError)"

text \<open>
  Every \<^verbatim>\<open>connection.execute\<close> may also fail because the store does: \<open>f k\<close> tells
  whether the \<open>k\<close>-th statement of the request is lost (ORA-03113). Each statement runs
  with \<^verbatim>\<open>autoCommit: true\<close>, so one that succeeds is committed before the next one starts.
  These failures are modelled for the donation handlers, where the atomicity of a
  request is at stake.
\<close>

type_synonym faults = "nat \<Rightarrow> bool"

definition execute :: "faults \<Rightarrow> nat \<Rightarrow> ora_error + 'a \<Rightarrow> ora_error + 'a" where
  "execute f k result = (if f k then Inl (ORA 3113) else result)"

definition select_campaign_status :: "string \<Rightarrow> db \<Rightarrow> string list" where
  "select_campaign_status campId d =
     map STATUS (filter (\<lambda>c. CAMP_ID c = campId) (CAMPAIGN d))"

definition new_donation_1 :: "string \<Rightarrow> string \<Rightarrow> string \<Rightarrow> rat \<Rightarrow> nat \<Rightarrow> donation_row" where
  "new_donation_1 donId donorId campId amount donationDate =
     \<lparr>D_ID = Some donId, DON_ID = None, DONOR_ID = donorId, D_CAMP_ID = campId,
      AMOUNT = amount, PAYMENT_METHOD = Some ''ONLINE'', DONATION_DATE = Some donationDate,
      DON_DATE = None\<rparr>"

definition insert_donation_1 ::
  "string \<Rightarrow> string \<Rightarrow> string \<Rightarrow> jsval \<Rightarrow> nat \<Rightarrow> db \<Rightarrow> ora_error + db" where
  "insert_donation_1 donId donorId campId amount donationDate d =
     (case bind_number amount of
        Inl e \<Rightarrow> Inl e
      | Inr a \<Rightarrow>
          Inr (d\<lparr>DONATION := DONATION d @ [new_donation_1 donId donorId campId a donationDate]\<rparr>))"

definition donation_failed_1 :: response where
  "donation_failed_1 =
     reply 500 (Message [Txt ''Internal server error while recording donation.''])"

definition campaign_unavailable :: response where
  "campaign_unavailable =
     reply 404 (Message [Txt ''Campaign not found or not currently active.''])"

text \<open>The first handler of \<^verbatim>\<open>POST /api/donations\<close>.\<close>

definition donation_handler_1 ::
  "faults \<Rightarrow> nat \<Rightarrow> user \<Rightarrow> string option \<Rightarrow> jsval \<Rightarrow> db \<Rightarrow> response \<times> db" where
  "donation_handler_1 f now u campId amount d =
     (let donorId = primaryId u in
      if userType u \<noteq> ''DONOR''
      then (reply 403 (Message
              [Txt ''Access denied. Only Donor accounts can make donations.'']), d)
      else if missing campId \<or> \<not> truthy amount \<or> js_le_zero amount
      then (reply 400 (Message
              [Txt ''Missing or invalid fields: campId and positive amount are required.'']), d)
      else
        let donId = generateUniqueId ''D'' now in
        case execute f 0 (Inr (select_campaign_status (the campId) d)) of
          Inl e \<Rightarrow> (donation_failed_1, d)
        | Inr [] \<Rightarrow> (campaign_unavailable, d)
        | Inr (st # _) \<Rightarrow>
            if st \<noteq> ''ACTIVE'' then (campaign_unavailable, d)
            else
              (case execute f 1 (insert_donation_1 donId donorId (the campId) amount now d) of
                 Inl e \<Rightarrow> (donation_failed_1, d)
               | Inr d' \<Rightarrow>
                   (reply 201 (MessageWith
                      [Txt ''Donation of Rs'', Val amount, Txt '' recorded successfully!'']
                      ''donId'' (FStr donId)), d')))"

text \<open>
  The second handler of the same path. It takes the id from \<^verbatim>\<open>DONATION_SEQ\<close>, inserts
  into the columns \<^verbatim>\<open>DON_ID\<close> and \<^verbatim>\<open>DON_DATE\<close> and then adds the amount to the campaign's
  \<^verbatim>\<open>AMOUNT_COLLECTED\<close>; it does not look at the campaign first. A sequence value that
  was handed out stays handed out. \<^verbatim>\<open>DON_DATE\<close> is the UTC day of the clock, kept as the
  number of days since the epoch. In Oracle \<^verbatim>\<open>NULL + x\<close> is \<^verbatim>\<open>NULL\<close>.
\<close>

definition new_donation_2 :: "nat \<Rightarrow> string \<Rightarrow> string \<Rightarrow> rat \<Rightarrow> nat \<Rightarrow> donation_row" where
  "new_donation_2 newDonId donorId campId donationAmount donationDate =
     \<lparr>D_ID = None, DON_ID = Some newDonId, DONOR_ID = donorId, D_CAMP_ID = campId,
      AMOUNT = donationAmount, PAYMENT_METHOD = None, DONATION_DATE = None,
      DON_DATE = Some donationDate\<rparr>"

definition insert_donation_2 ::
  "nat \<Rightarrow> string \<Rightarrow> string \<Rightarrow> rat option \<Rightarrow> nat \<Rightarrow> db \<Rightarrow> ora_error + db" where
  "insert_donation_2 newDonId donorId campId donationAmount donationDate d =
     (case donationAmount of
        None \<Rightarrow> Inl DriverError
      | Some a \<Rightarrow>
          Inr (d\<lparr>DONATION :=
                   DONATION d @ [new_donation_2 newDonId donorId campId a donationDate]\<rparr>))"

definition update_amount_collected :: "string \<Rightarrow> rat option \<Rightarrow> db \<Rightarrow> ora_error + db" where
  "update_amount_collected campId donationAmount d =
     (case donationAmount of
        None \<Rightarrow> Inl DriverError
      | Some a \<Rightarrow>
          Inr (d\<lparr>CAMPAIGN :=
                   map (\<lambda>c. if CAMP_ID c = campId
                            then c\<lparr>AMOUNT_COLLECTED := map_option (\<lambda>x. x + a) (AMOUNT_COLLECTED c)\<rparr>
                            else c) (CAMPAIGN d)\<rparr>))"

definition nextval :: "db \<Rightarrow> nat \<times> db" where
  "nextval d = (DONATION_SEQ d + 1, d\<lparr>DONATION_SEQ := DONATION_SEQ d + 1\<rparr>)"

definition donation_failed_2 :: response where
  "donation_failed_2 =
     reply 500 (Message [Txt ''Internal server error while recording donation.''])"

definition donation_handler_2 ::
  "faults \<Rightarrow> nat \<Rightarrow> user \<Rightarrow> string option \<Rightarrow> jsval \<Rightarrow> db \<Rightarrow> response \<times> db" where
  "donation_handler_2 f now u campId amount d =
     (let donorId = primaryId u in
      if missing campId \<or> \<not> truthy amount \<or> js_le_zero amount
      then (reply 400 (Message [Txt ''Invalid campaign or donation amount.'']), d)
      else
        let donationAmount = Number_js amount;
            donationDate = now div 86400000 in
        case execute f 0 (Inr (nextval d)) of
          Inl e \<Rightarrow> (donation_failed_2, d)
        | Inr (newDonId, d1) \<Rightarrow>
            (case execute f 1
                    (insert_donation_2 newDonId donorId (the campId) donationAmount donationDate d1) of
               Inl e \<Rightarrow> (donation_failed_2, d1)
             | Inr d2 \<Rightarrow>
                 (case execute f 2 (update_amount_collected (the campId) donationAmount d2) of
                    Inl e \<Rightarrow> (donation_failed_2, d2)
                  | Inr d3 \<Rightarrow>
                      (reply 201 (MessageWith [Txt ''Donation successfully recorded.'']
                         ''donId'' (FNat newDonId)), d3))))"

text \<open>
  The two registrations. The first is guarded by \<^verbatim>\<open>authenticateToken\<close> only and checks
  the role itself; it answers on every path, so it serves the route.
\<close>

definition post_donations_1 ::
  "faults \<Rightarrow> nat \<Rightarrow> token \<Rightarrow> string option \<Rightarrow> jsval \<Rightarrow> db \<Rightarrow> response \<times> db" where
  "post_donations_1 f now t campId amount d =
     authenticated t (\<lambda>u. donation_handler_1 f now u campId amount) d"

definition post_donations_2 ::
  "faults \<Rightarrow> nat \<Rightarrow> token \<Rightarrow> string option \<Rightarrow> jsval \<Rightarrow> db \<Rightarrow> response \<times> db" where
  "post_donations_2 f now t campId amount d =
     guarded t authorizeDonor (\<lambda>u. donation_handler_2 f now u campId amount) d"

definition post_api_donations ::
  "faults \<Rightarrow> nat \<Rightarrow> token \<Rightarrow> string option \<Rightarrow> jsval \<Rightarrow> db \<Rightarrow> response \<times> db" where
  "post_api_donations = post_donations_1"

section \<open>Receipts\<close>

text \<open>
  The first handler of \<^verbatim>\<open>GET /api/donations/:donId\<close> joins the donation with its
  campaign, its donor and the donor's credentials and keeps the rows whose \<^verbatim>\<open>D_ID\<close> is
  the path parameter. \<^verbatim>\<open>||\<close> reads \<^verbatim>\<open>NULL\<close> as the empty string.
\<close>

definition ora_str :: "string option \<Rightarrow> string" where
  "ora_str x = (case x of None \<Rightarrow> [] | Some s \<Rightarrow> s)"

definition receipt_row ::
  "donation_row \<Rightarrow> campaign_row \<Rightarrow> donor_row \<Rightarrow> credentials_row \<Rightarrow> receipt" where
  "receipt_row D C R U =
     \<lparr>rc_D_ID = D_ID D, rc_DONOR_ID = DONOR_ID D, rc_AMOUNT = AMOUNT D,
      rc_DONATION_DATE = DONATION_DATE D, rc_PAYMENT_METHOD = PAYMENT_METHOD D,
      CAMPAIGN_NAME = C_NAME C,
      DONOR_NAME = ora_str (R_FNAME R) @ '' '' @ ora_str (R_LNAME R),
      DONOR_EMAIL = EMAIL U\<rparr>"

definition select_receipt :: "string \<Rightarrow> db \<Rightarrow> receipt list" where
  "select_receipt donId d =
     [receipt_row D C R U.
        D \<leftarrow> DONATION d, C \<leftarrow> CAMPAIGN d, D_CAMP_ID D = CAMP_ID C,
        R \<leftarrow> DONOR d, DONOR_ID D = R_DONOR_ID R,
        U \<leftarrow> NEW_CREDENTIALS d, R_USER_ID R = USER_ID U,
        D_ID D = Some donId]"

definition receipt_handler_1 :: "user \<Rightarrow> string \<Rightarrow> db \<Rightarrow> response \<times> db" where
  "receipt_handler_1 u donId d =
     (case select_receipt donId d of
        [] \<Rightarrow> (reply 404 (Message [Txt ''Donation not found.'']), d)
      | donation # _ \<Rightarrow>
          if userType u = ''DONOR'' \<and> rc_DONOR_ID donation \<noteq> primaryId u
          then (reply 403 (Message [Txt ''Access denied. You do not own this receipt.'']), d)
          else (reply 200 (DonationBody donation), d))"

text \<open>
  The second handler. The text of its statement holds a line that starts with \<^verbatim>\<open>//\<close>
  inside the select list; Oracle has no such comment, so the statement does not parse
  (ORA-00936) and \<^verbatim>\<open>execute\<close> throws on every call. The statement would filter on
  \<^verbatim>\<open>d.DONOR_ID = :donId\<close>.
\<close>

definition select_receipt_2 :: "string \<Rightarrow> db \<Rightarrow> ora_error + receipt2 list" where
  "select_receipt_2 donId d = Inl (ORA 936)"

definition receipt_handler_2 :: "user \<Rightarrow> string \<Rightarrow> db \<Rightarrow> response \<times> db" where
  "receipt_handler_2 u donId d =
     (case select_receipt_2 donId d of
        Inl e \<Rightarrow>
          (reply 500 (Message [Txt ''Internal server error while retrieving receipt data.'']), d)
      | Inr [] \<Rightarrow> (reply 404 (Message [Txt ''Donation not found.'']), d)
      | Inr (donation # _) \<Rightarrow>
          if userType u = ''DONOR'' \<and> rc2_DONOR_ID donation \<noteq> primaryId u
          then (reply 403 (Message
                  [Txt ''Access denied: You can only view your own receipts.'']), d)
          else (reply 200 (DonationBody2 donation), d))"

definition get_donation_1 :: "token \<Rightarrow> string \<Rightarrow> db \<Rightarrow> response \<times> db" where
  "get_donation_1 t donId d = authenticated t (\<lambda>u. receipt_handler_1 u donId) d"

definition get_donation_2 :: "token \<Rightarrow> string \<Rightarrow> db \<Rightarrow> response \<times> db" where
  "get_donation_2 t donId d = authenticated t (\<lambda>u. receipt_handler_2 u donId) d"

definition get_api_donation :: "token \<Rightarrow> string \<Rightarrow> db \<Rightarrow> response \<times> db" where
  "get_api_donation = get_donation_1"

section \<open>Creating a campaign\<close>









section \<open>Signup\<close>

subsection \<open>Regular expressions\<close>

text \<open>
  The two patterns of the signup handler are anchored at both ends, so \<^verbatim>\<open>test\<close> asks
  whether the whole string is in the language of the pattern. The matcher takes the
  derivative of the pattern by each character in turn.
\<close>

datatype rx = Null | Eps | Cls "char \<Rightarrow> bool" | Alt rx rx | Cat rx rx | Star rx

fun nullable :: "rx \<Rightarrow> bool" where
  "nullable Null = False"
| "nullable Eps = True"
| "nullable (Cls P) = False"
| "nullable (Alt r s) = (nullable r \<or> nullable s)"
| "nullable (Cat r s) = (nullable r \<and> nullable s)"
| "nullable (Star r) = True"

fun deriv :: "char \<Rightarrow> rx \<Rightarrow> rx" where
  "deriv c Null = Null"
| "deriv c Eps = Null"
| "deriv c (Cls P) = (if P c then Eps else Null)"
| "deriv c (Alt r s) = Alt (deriv c r) (deriv c s)"
| "deriv c (Cat r s) =
     (if nullable r then Alt (Cat (deriv c r) s) (deriv c s) else Cat (deriv c r) s)"
| "deriv c (Star r) = Cat (deriv c r) (Star r)"

fun rx_test :: "rx \<Rightarrow> string \<Rightarrow> bool" where
  "rx_test r [] = nullable r"
| "rx_test r (c # cs) = rx_test (deriv c r) cs"

definition Plus :: "rx \<Rightarrow> rx" where
  "Plus r = Cat r (Star r)"


text \<open>\<^verbatim>\<open>\d\<close> is a decimal digit. \<^verbatim>\<open>\S\<close> is any character that is not white space; of the
  white space of JavaScript the model knows the ASCII characters.\<close>

definition non_space :: "char \<Rightarrow> bool" where
  "non_space c = (\<not> is_space c)"


text \<open>\<^verbatim>\<open>/^\S+@\S+\.\S+$/\<close>\<close>

definition email_rx :: rx where
  "email_rx =
     Cat (Plus (Cls non_space))
       (Cat (Cls (\<lambda>c. c = CHR ''@''))
          (Cat (Plus (Cls non_space))
             (Cat (Cls (\<lambda>c. c = CHR ''.'')) (Plus (Cls non_space)))))"

subsection \<open>The handler\<close>










section \<open>Notions used in the statements\<close>

subsection \<open>Keys and invariants of the store\<close>

text \<open>\<^verbatim>\<open>PROJ_ID\<close>, \<^verbatim>\<open>CAMP_ID\<close> and \<^verbatim>\<open>D_ID\<close> identify a row of their table.\<close>

definition project_key :: "db \<Rightarrow> bool" where
  "project_key d = distinct (map PROJ_ID (PROJECT d))"

definition campaign_key :: "db \<Rightarrow> bool" where
  "campaign_key d = distinct (map CAMP_ID (CAMPAIGN d))"

text \<open>No project has spent more than its budget.\<close>

definition within_budget :: "db \<Rightarrow> bool" where
  "within_budget d = list_all (\<lambda>p. SPENT p \<le> BUDGET p) (PROJECT d)"

text \<open>From an earlier row \<open>p\<close> of a project to a later row \<open>p'\<close> of the same project:
  the budget is the same, the spent total has not gone down, and it is within the budget.\<close>

definition spent_advances :: "project_row \<Rightarrow> project_row \<Rightarrow> bool" where
  "spent_advances p p' =
     (PROJ_ID p' = PROJ_ID p \<and> BUDGET p' = BUDGET p \<and> SPENT p \<le> SPENT p'
        \<and> SPENT p' \<le> BUDGET p')"



text \<open>
  The receipt query finds the donation \<open>x\<close> under the id \<open>donId\<close>: \<open>x\<close> is a row with
  this id, every row with this id has the donor of \<open>x\<close>, and the campaign of \<open>x\<close>, its
  donor and the donor's credentials are rows of the store.
\<close>

definition receipt_available :: "db \<Rightarrow> string \<Rightarrow> donation_row \<Rightarrow> bool" where
  "receipt_available d donId x =
     (x \<in> set (DONATION d) \<and> D_ID x = Some donId
      \<and> list_all (\<lambda>y. D_ID y = Some donId \<longrightarrow> DONOR_ID y = DONOR_ID x) (DONATION d)
      \<and> D_CAMP_ID x \<in> set (map CAMP_ID (CAMPAIGN d))
      \<and> list_ex (\<lambda>R. R_DONOR_ID R = DONOR_ID x
                       \<and> R_USER_ID R \<in> set (map USER_ID (NEW_CREDENTIALS d))) (DONOR d))"

subsection \<open>The error classes of the responses\<close>

text \<open>The status codes by which the handlers tell the classes of errors apart.\<close>

definition NotFoundError :: "response \<Rightarrow> bool" where
  "NotFoundError r = (status r = 404)"

definition ConflictError :: "response \<Rightarrow> bool" where
  "ConflictError r = (status r = 409)"

definition ForbiddenError :: "response \<Rightarrow> bool" where
  "ForbiddenError r = (status r = 403)"

definition ValidationError :: "response \<Rightarrow> bool" where
  "ValidationError r = (status r = 400)"

subsection \<open>Fields named by a signup message\<close>









subsection \<open>The language of a pattern\<close>

text \<open>What a pattern means, against which the matcher is checked.\<close>

inductive_set star :: "string set \<Rightarrow> string set" for A :: "string set" where
  star_empty: "[] \<in> star A"
| star_step: "u \<in> A \<Longrightarrow> v \<in> star A \<Longrightarrow> u @ v \<in> star A"

definition conc :: "string set \<Rightarrow> string set \<Rightarrow> string set" where
  "conc A B = {u @ v | u v. u \<in> A \<and> v \<in> B}"

fun lang :: "rx \<Rightarrow> string set" where
  "lang Null = {}"
| "lang Eps = {[]}"
| "lang (Cls P) = {[c] | c. P c}"
| "lang (Alt r s) = lang r \<union> lang s"
| "lang (Cat r s) = conc (lang r) (lang s)"
| "lang (Star r) = star (lang r)"

text \<open>The shape that the email pattern asks for: a local part, an at sign, a domain, a
  dot and a suffix, none of them empty and none with white space.\<close>

definition email_shape :: "string \<Rightarrow> bool" where
  "email_shape s =
     (\<exists>a b c. s = a @ ''@'' @ b @ ''.'' @ c \<and> a \<noteq> [] \<and> b \<noteq> [] \<and> c \<noteq> []
        \<and> list_all non_space (a @ b @ c))"

subsection \<open>Example data\<close>

definition staff_member :: user where
  "staff_member = \<lparr>userId = ''STAFF_1'', primaryId = ''S_1'', userType = ''STAFF''\<rparr>"

definition donor_a :: user where
  "donor_a = \<lparr>userId = ''DONOR_2'', primaryId = ''D_2'', userType = ''DONOR''\<rparr>"

definition donor_b :: user where
  "donor_b = \<lparr>userId = ''DONOR_3'', primaryId = ''D_3'', userType = ''DONOR''\<rparr>"

definition wells :: project_row where
  "wells =
     \<lparr>PROJ_ID = ''PROJ_1'', PNAME = ''Wells'', BUDGET = 5000, SPENT = 4800,
      P_STATUS = ''ONGOING'', P_SDATE = (2024, 1, 15), OVERSEER_STAFF_ID = ''S_1'',
      P_CAMP_ID = None\<rparr>"

definition unfunded :: project_row where
  "unfunded =
     \<lparr>PROJ_ID = ''PROJ_2'', PNAME = ''Survey'', BUDGET = 0, SPENT = 0,
      P_STATUS = ''ONGOING'', P_SDATE = (2024, 2, 1), OVERSEER_STAFF_ID = ''S_1'',
      P_CAMP_ID = None\<rparr>"

definition water :: campaign_row where
  "water =
     \<lparr>CAMP_ID = ''CAMP_1'', C_NAME = ''Water'', STATUS = ''ACTIVE'', SDATE = (2024, 1, 1),
      EDATE = (2024, 12, 31), GOAL_AMOUNT = 10000, MANAGER_STAFF_ID = ''S_1'',
      AMOUNT_COLLECTED = Some 0\<rparr>"

definition school :: campaign_row where
  "school =
     \<lparr>CAMP_ID = ''CAMP_2'', C_NAME = ''School'', STATUS = ''COMPLETED'', SDATE = (2023, 1, 1),
      EDATE = (2023, 12, 31), GOAL_AMOUNT = 20000, MANAGER_STAFF_ID = ''S_1'',
      AMOUNT_COLLECTED = Some 0\<rparr>"

definition gift_of_b :: donation_row where
  "gift_of_b =
     \<lparr>D_ID = Some ''D_1700000000000'', DON_ID = None, DONOR_ID = ''D_3'',
      D_CAMP_ID = ''CAMP_1'', AMOUNT = 750, PAYMENT_METHOD = Some ''ONLINE'',
      DONATION_DATE = Some 1700000000000, DON_DATE = None\<rparr>"

definition store :: db where
  "store =
     \<lparr>NEW_CREDENTIALS =
        [\<lparr>USER_ID = ''STAFF_1'', AADHAR_NO = ''111122223333'', PASSWORD = ''$2b$10$s'',
          EMAIL = ''staff@ngo.org'', USER_TYPE = ''STAFF''\<rparr>,
         \<lparr>USER_ID = ''DONOR_2'', AADHAR_NO = ''444455556666'', PASSWORD = ''$2b$10$a'',
          EMAIL = ''a@mail.org'', USER_TYPE = ''DONOR''\<rparr>,
         \<lparr>USER_ID = ''DONOR_3'', AADHAR_NO = ''777788889999'', PASSWORD = ''$2b$10$b'',
          EMAIL = ''b@mail.org'', USER_TYPE = ''DONOR''\<rparr>],
      STAFF =
        [\<lparr>STAFF_ID = ''S_1'', S_USER_ID = ''STAFF_1'', S_FNAME = Some ''Asha'',
          S_LNAME = Some ''Rao'', DOJ = 1690000000000\<rparr>],
      DONOR =
        [\<lparr>R_DONOR_ID = ''D_2'', R_USER_ID = ''DONOR_2'', R_FNAME = Some ''Anil'',
          R_LNAME = Some ''Das''\<rparr>,
         \<lparr>R_DONOR_ID = ''D_3'', R_USER_ID = ''DONOR_3'', R_FNAME = Some ''Bina'',
          R_LNAME = None\<rparr>],
      CAMPAIGN = [water, school],
      PROJECT = [wells],
      DONATION = [gift_of_b],
      DONATION_SEQ = 41\<rparr>"

definition no_faults :: faults where
  "no_faults k = False"



section \<open>Properties of the expense route\<close>

lemma valid_expense_pos: "\<not> invalid_expense v \<Longrightarrow> 0 < the (Number_js v)"
  by (auto simp: invalid_expense_def js_le_zero_def split: option.splits)

lemma select_project_Cons:
  assumes "select_project projId d = p # ps"
  shows "p \<in> set (PROJECT d) \<and> PROJ_ID p = projId"
proof -
  have "p \<in> set (filter (\<lambda>p. PROJ_ID p = projId) (PROJECT d))"
    using assms by (simp add: select_project_def)
  then show ?thesis by simp
qed

lemma distinct_key_unique:
  "distinct (map f xs) \<Longrightarrow> x \<in> set xs \<Longrightarrow> y \<in> set xs \<Longrightarrow> f x = f y \<Longrightarrow> x = y"
  by (meson distinct_map inj_onD)

lemma filter_key_single:
  "distinct (map f xs) \<Longrightarrow> x \<in> set xs \<Longrightarrow> filter (\<lambda>y. f y = f x) xs = [x]"
proof (induction xs)
  case Nil
  then show ?case by simp
next
  case (Cons z zs)
  show ?case
  proof (cases "z = x")
    case True
    have "filter (\<lambda>y. f y = f x) zs = []"
      using Cons.prems(1) True by (force simp: filter_empty_conv image_iff)
    with True show ?thesis by simp
  next
    case False
    with Cons.prems have "x \<in> set zs" and "f z \<noteq> f x" by auto
    with Cons show ?thesis by simp
  qed
qed


lemma map_update_advances:
  assumes inv: "list_all (\<lambda>p. SPENT p \<le> BUDGET p) ps"
    and up: "\<And>p. p \<in> set ps \<Longrightarrow> PROJ_ID p = k \<Longrightarrow> spent_advances p (g p)"
  shows "list_all2 spent_advances ps (map (\<lambda>p. if PROJ_ID p = k then g p else p) ps)"
  using inv up
  by (auto simp: list_all2_map2 list_all_iff spent_advances_def intro!: list_all2_all_nthI)
    (metis nth_mem)+

lemma same_store_advances:
  "within_budget d \<Longrightarrow> list_all2 spent_advances (PROJECT d) (PROJECT d)"
  by (simp add: within_budget_def list_all_iff list_all2_same spent_advances_def)

lemma update_spent_advances:
  assumes key: "project_key d" and inv: "within_budget d"
    and sel: "select_project projId d = project # rest"
    and pos: "0 < a" and fits: "\<not> SPENT project + a > BUDGET project"
  shows "list_all2 spent_advances (PROJECT d)
           (PROJECT (update_spent projId (SPENT project + a) d))"
    and "list_all2 spent_advances (PROJECT d)
           (PROJECT (update_spent_status projId (SPENT project + a) d))"
proof -
  have mem: "project \<in> set (PROJECT d)" and pid: "PROJ_ID project = projId"
    using select_project_Cons [OF sel] by simp_all
  have only: "p = project" if "p \<in> set (PROJECT d)" "PROJ_ID p = projId" for p
    using distinct_key_unique [of PROJ_ID "PROJECT d" p project] key mem pid that
    by (simp add: project_key_def)
  have inv': "list_all (\<lambda>p. SPENT p \<le> BUDGET p) (PROJECT d)"
    using inv by (simp add: within_budget_def)
  show "list_all2 spent_advances (PROJECT d)
          (PROJECT (update_spent projId (SPENT project + a) d))"
    unfolding update_spent_def using pos fits only
    by (auto intro!: map_update_advances [OF inv'] simp: spent_advances_def)
  show "list_all2 spent_advances (PROJECT d)
          (PROJECT (update_spent_status projId (SPENT project + a) d))"
    unfolding update_spent_status_def using pos fits only
    by (auto intro!: map_update_advances [OF inv'] simp: spent_advances_def)
qed

lemma expense_handler_1_advances:
  assumes "project_key d" "within_budget d"
  shows "list_all2 spent_advances (PROJECT d) (PROJECT (snd (expense_handler_1 projId v d)))"
  using assms valid_expense_pos [of v]
  by (auto simp: expense_handler_1_def Let_def same_store_advances update_spent_advances(1)
      split: list.splits)

lemma expense_handler_2_advances:
  assumes "project_key d" "within_budget d"
  shows "list_all2 spent_advances (PROJECT d) (PROJECT (snd (expense_handler_2 projId v d)))"
  using assms valid_expense_pos [of v]
  by (auto simp: expense_handler_2_def Let_def same_store_advances update_spent_advances(2)
      split: list.splits)

lemma guarded_cases:
  "guarded t authorize h d = (r, d') \<Longrightarrow>
     d' = d \<or> (\<exists>u. t = ValidToken u \<and> authorize u = None \<and> h u d = (r, d'))"
  by (auto simp: guarded_def authenticated_def authenticateToken_def
      split: token.splits option.splits)


lemma patch_expense_advances:
  assumes "project_key d" "within_budget d" "h = patch_expense_1 \<or> h = patch_expense_2"
  shows "list_all2 spent_advances (PROJECT d) (PROJECT (snd (h t projId v d)))"
proof -
  obtain r d' where res: "h t projId v d = (r, d')" by (cases "h t projId v d")
  from assms(3) show ?thesis
  proof
    assume "h = patch_expense_1"
    with res guarded_cases [of t authorizeStaff "\<lambda>u. expense_handler_1 projId v" d r d']
    have "d' = d \<or> expense_handler_1 projId v d = (r, d')"
      by (auto simp: patch_expense_1_def)
    then show ?thesis
      using res assms(1,2) expense_handler_1_advances [of d projId v]
      by (auto simp: same_store_advances)
  next
    assume "h = patch_expense_2"
    with res guarded_cases [of t authorizeStaff "\<lambda>u. expense_handler_2 projId v" d r d']
    have "d' = d \<or> expense_handler_2 projId v d = (r, d')"
      by (auto simp: patch_expense_2_def)
    then show ?thesis
      using res assms(1,2) expense_handler_2_advances [of d projId v]
      by (auto simp: same_store_advances)
  qed
qed

lemma advances_keeps:
  assumes "list_all2 spent_advances (PROJECT d) (PROJECT d')"
  shows "project_key d \<Longrightarrow> project_key d'" and "within_budget d'"
proof -
  have "map PROJ_ID (PROJECT d') = map PROJ_ID (PROJECT d)"
    using assms by (induction rule: list_all2_induct) (simp_all add: spent_advances_def)
  then show "project_key d \<Longrightarrow> project_key d'" by (simp add: project_key_def)
  show "within_budget d'"
    unfolding within_budget_def using assms
    by (induction rule: list_all2_induct) (simp_all add: spent_advances_def)
qed

lemma advances_trans:
  assumes "list_all2 spent_advances xs ys" "list_all2 spent_advances ys zs"
  shows "list_all2 spent_advances xs zs"
  using list_all2_trans [of spent_advances spent_advances spent_advances xs ys zs] assms
  by (auto simp: spent_advances_def)

lemma run_expenses_advances:
  assumes "h = patch_expense_1 \<or> h = patch_expense_2"
  shows "project_key d \<Longrightarrow> within_budget d \<Longrightarrow>
         list_all2 spent_advances (PROJECT d) (PROJECT (run_expenses h d cs))"
proof (induction cs arbitrary: d)
  case Nil
  then show ?case by (simp add: same_store_advances)
next
  case (Cons c cs)
  obtain t projId v where c: "c = (t, projId, v)" by (cases c)
  let ?d = "snd (h t projId v d)"
  have step: "list_all2 spent_advances (PROJECT d) (PROJECT ?d)"
    using patch_expense_advances [OF Cons.prems assms] .
  have "list_all2 spent_advances (PROJECT ?d) (PROJECT (run_expenses h ?d cs))"
    using Cons.IH [of ?d] advances_keeps [OF step] Cons.prems by simp
  with step show ?case
    by (simp add: c advances_trans)
qed

lemma run_expenses_append:
  "run_expenses h d (xs @ ys) = run_expenses h (run_expenses h d xs) ys"
  by (induction xs arbitrary: d) auto

text \<open>
  C1. Start from a store in which no project has spent more than its budget, and serve
  any sequence of expense requests, by either handler of the route. Take the store at
  any point of the sequence (after \<open>xs\<close>) and at any later point (after \<open>xs @ ys\<close>): row
  by row the project and its budget are the same, the spent total has not decreased, and
  the later total does not exceed the budget.
\<close>

theorem expense_budget_invariant:
  assumes "project_key d" and "within_budget d"
    and "h = patch_expense_1 \<or> h = patch_expense_2"
  shows "list_all2 spent_advances (PROJECT (run_expenses h d xs))
           (PROJECT (run_expenses h d (xs @ ys)))"
proof -
  have first: "list_all2 spent_advances (PROJECT d) (PROJECT (run_expenses h d xs))"
    using run_expenses_advances [OF assms(3,1,2)] .
  show ?thesis
    unfolding run_expenses_append
    using run_expenses_advances [OF assms(3), of "run_expenses h d xs" ys]
      advances_keeps [OF first] assms(1) by simp
qed

lemmas expense_eval =
  patch_projects_expense_def patch_expense_1_def patch_expense_2_def guarded_def
  authenticated_def authenticateToken_def authorizeStaff_def expense_handler_1_def
  expense_handler_2_def invalid_expense_def js_le_zero_def select_project_def
  update_spent_def update_spent_status_def expense_added_def reply_def
  store_def wells_def staff_member_def

theorem expense_budget_invariant_witness:
  "project_key store \<and> within_budget store
   \<and> list_all2 spent_advances
       (PROJECT (run_expenses patch_projects_expense store
          [(ValidToken staff_member, ''PROJ_1'', JNum 300),
           (ValidToken staff_member, ''PROJ_1'', JNum 150)]))
       (PROJECT (run_expenses patch_projects_expense store
          ([(ValidToken staff_member, ''PROJ_1'', JNum 300),
            (ValidToken staff_member, ''PROJ_1'', JNum 150)]
           @ [(ValidToken staff_member, ''PROJ_1'', JNum 50),
              (ValidToken staff_member, ''PROJ_1'', JNum 1)])))
   \<and> map SPENT (PROJECT (run_expenses patch_projects_expense store
          [(ValidToken staff_member, ''PROJ_1'', JNum 300),
           (ValidToken staff_member, ''PROJ_1'', JNum 150),
           (ValidToken staff_member, ''PROJ_1'', JNum 50),
           (ValidToken staff_member, ''PROJ_1'', JNum 1)])) = [5000]"
proof -
  have key: "project_key store" and inv: "within_budget store"
    by (simp_all add: project_key_def within_budget_def store_def wells_def)
  have h: "patch_projects_expense = patch_expense_1 \<or> patch_projects_expense = patch_expense_2"
    by (simp add: patch_projects_expense_def)
  have final: "map SPENT (PROJECT (run_expenses patch_projects_expense store
          [(ValidToken staff_member, ''PROJ_1'', JNum 300),
           (ValidToken staff_member, ''PROJ_1'', JNum 150),
           (ValidToken staff_member, ''PROJ_1'', JNum 50),
           (ValidToken staff_member, ''PROJ_1'', JNum 1)])) = [5000]"
    by (simp add: expense_eval)
  show ?thesis
    using key inv final
      expense_budget_invariant [OF key inv h,
        of "[(ValidToken staff_member, ''PROJ_1'', JNum 300),
             (ValidToken staff_member, ''PROJ_1'', JNum 150)]"
           "[(ValidToken staff_member, ''PROJ_1'', JNum 50),
             (ValidToken staff_member, ''PROJ_1'', JNum 1)]"]
    by simp
qed



text \<open>
  C4. The route is served by the first handler, which writes \<^verbatim>\<open>SPENT\<close> and nothing
  else. With budget 5000 and 4800 spent, an expense of 200 is accepted and takes the
  spent total to the budget, and the project's status is still \<^verbatim>\<open>ONGOING\<close>. The second
  handler, which is never reached, would have set it to \<^verbatim>\<open>Completed\<close>.
\<close>

theorem expense_reaching_budget_keeps_status:
  "status (fst (patch_projects_expense (ValidToken staff_member) ''PROJ_1'' (JNum 200) store))
     = 200
   \<and> map SPENT (PROJECT (snd
       (patch_projects_expense (ValidToken staff_member) ''PROJ_1'' (JNum 200) store)))
     = [5000]
   \<and> map BUDGET (PROJECT (snd
       (patch_projects_expense (ValidToken staff_member) ''PROJ_1'' (JNum 200) store)))
     = [5000]
   \<and> map P_STATUS (PROJECT (snd
       (patch_projects_expense (ValidToken staff_member) ''PROJ_1'' (JNum 200) store)))
     = [''ONGOING'']
   \<and> map P_STATUS (PROJECT (snd
       (patch_expense_2 (ValidToken staff_member) ''PROJ_1'' (JNum 200) store)))
     = [''Completed'']"
  by (simp add: expense_eval)

lemma first_expense_handler_keeps_status:
  "map P_STATUS (PROJECT (snd (patch_projects_expense t projId v d))) = map P_STATUS (PROJECT d)"
proof -
  have upd: "map P_STATUS (PROJECT (update_spent projId x d)) = map P_STATUS (PROJECT d)" for x
    by (simp add: update_spent_def comp_def if_distrib cong: if_cong)
  have "map P_STATUS (PROJECT (snd (expense_handler_1 projId v d))) = map P_STATUS (PROJECT d)"
    by (simp add: expense_handler_1_def Let_def upd split: list.splits)
  then show ?thesis
    by (auto simp: patch_projects_expense_def patch_expense_1_def guarded_def authenticated_def
        split: sum.splits option.splits)
qed

section \<open>Properties of the progress route\<close>

lemma progress_rows_zero_budget:
  "p \<in> set ps \<Longrightarrow> BUDGET p = 0 \<Longrightarrow> \<exists>e. progress_rows ps = Inl e"
  by (induction ps) (auto simp: ora_divide_def split: sum.splits)

lemma progress_zero_budget_fails:
  assumes "p \<in> set (PROJECT d)" and "BUDGET p = 0"
  shows "get_projects_progress (ValidToken u) d =
           (reply 500 (Message [Txt ''Failed to retrieve project progress data.'']), d)"
proof -
  have "p \<in> set (sort_key (\<lambda>p. - SPENT p) (PROJECT d))"
    using assms(1) by simp
  then obtain e where "select_progress d = Inl e"
    using progress_rows_zero_budget [OF _ assms(2)] unfolding select_progress_def by blast
  then show ?thesis
    by (simp add: get_projects_progress_def authenticated_def authenticateToken_def
        progress_handler_def)
qed

lemma round2_example: "round2 96 = 96"
proof -
  have "\<lfloor>(19201 :: rat) / 2\<rfloor> = 9600"
    by (rule floor_unique) simp_all
  then show ?thesis by (simp add: round2_def)
qed

lemmas progress_eval =
  get_projects_progress_def authenticated_def authenticateToken_def progress_handler_def
  select_progress_def ora_divide_def SPENDING_PERCENT_def round2_example reply_def
  store_def wells_def unfunded_def

text \<open>
  C8. With a project of budget 0 in the table, the division in the \<^verbatim>\<open>SELECT\<close> fails the
  statement before the handler's own guard is reached: the route answers 500 and lists
  no project at all. The guard would have given that project 0, and without that
  project the route lists the other one with its percentage, 96.
\<close>

theorem progress_with_zero_budget_fails:
  "get_projects_progress (ValidToken donor_a) (store\<lparr>PROJECT := [wells, unfunded]\<rparr>) =
     (reply 500 (Message [Txt ''Failed to retrieve project progress data.'']),
      store\<lparr>PROJECT := [wells, unfunded]\<rparr>)
   \<and> BUDGET unfunded = 0
   \<and> SPENDING_PERCENT unfunded = 0
   \<and> get_projects_progress (ValidToken donor_a) store =
       (reply 200 (ProjectsBody [(wells, 96)]), store)"
  by (simp add: progress_eval)

section \<open>Properties of donation recording\<close>

lemma bind_number_pos:
  assumes "truthy amount" and "\<not> js_le_zero amount" and "bind_number amount = Inr a"
  shows "0 < a"
proof (cases amount)
  case (JNum r)
  with assms show ?thesis by (simp add: js_le_zero_def bind_number_def)
next
  case (JStr s)
  with assms(3) have dec: "signed_decimal (trim s) = Some a"
    by (simp add: bind_number_def split: option.splits)
  then have "trim s \<noteq> []" by (auto simp: signed_decimal_def)
  with dec have "StringToNumber s = Some a" by (simp add: StringToNumber_def)
  with assms(2) JStr show ?thesis by (simp add: js_le_zero_def)
qed (use assms in \<open>simp_all add: bind_number_def\<close>)

lemma authenticated_cases:
  "authenticated t h d = (r, d') \<Longrightarrow>
     (d' = d \<and> (status r = 401 \<or> status r = 403)) \<or> (\<exists>u. t = ValidToken u \<and> h u d = (r, d'))"
  by (auto simp: authenticated_def authenticateToken_def reply_def split: token.splits)

lemma donation_handler_1_outcome:
  "(\<exists>a. bind_number amount = Inr a \<and> 0 < a
        \<and> donation_handler_1 f now u campId amount d =
            (reply 201 (MessageWith
               [Txt ''Donation of Rs'', Val amount, Txt '' recorded successfully!'']
               ''donId'' (FStr (generateUniqueId ''D'' now))),
             d\<lparr>DONATION := DONATION d @
                 [new_donation_1 (generateUniqueId ''D'' now) (primaryId u) (the campId) a now]\<rparr>))
   \<or> (status (fst (donation_handler_1 f now u campId amount d)) \<noteq> 201
       \<and> snd (donation_handler_1 f now u campId amount d) = d)"
proof (cases "userType u \<noteq> ''DONOR'' \<or> missing campId \<or> \<not> truthy amount \<or> js_le_zero amount")
  case True
  then show ?thesis
    by (auto simp: donation_handler_1_def Let_def reply_def)
next
  case valid: False
  show ?thesis
  proof (cases "execute f 0 (Inr (select_campaign_status (the campId) d) :: ora_error + string list)")
    case (Inl e)
    with valid show ?thesis
      by (simp add: donation_handler_1_def Let_def donation_failed_1_def reply_def)
  next
    case (Inr rows)
    show ?thesis
    proof (cases "rows = [] \<or> hd rows \<noteq> ''ACTIVE''")
      case True
      with valid Inr show ?thesis
        by (cases rows)
          (simp_all add: donation_handler_1_def Let_def campaign_unavailable_def reply_def)
    next
      case False
      then obtain rest where rows: "rows = ''ACTIVE'' # rest" by (cases rows) auto
      show ?thesis
      proof (cases "execute f 1 (insert_donation_1 (generateUniqueId ''D'' now) (primaryId u)
                      (the campId) amount now d)")
        case (Inl e)
        with valid Inr rows show ?thesis
          by (simp add: donation_handler_1_def Let_def donation_failed_1_def reply_def)
      next
        case ins: (Inr d')
        then obtain a where a: "bind_number amount = Inr a"
          and d': "d' = d\<lparr>DONATION := DONATION d @
                 [new_donation_1 (generateUniqueId ''D'' now) (primaryId u) (the campId) a now]\<rparr>"
          by (auto simp: execute_def insert_donation_1_def split: if_splits sum.splits)
        have "0 < a" using bind_number_pos [OF _ _ a] valid by simp
        with valid Inr rows ins a d' show ?thesis
          by (simp add: donation_handler_1_def Let_def)
      qed
    qed
  qed
qed

text \<open>
  C2. The route is served by the first handler and raised totals are computed on read.
  Whatever the token, the body and the failures of the store, a request to
  \<^verbatim>\<open>POST /api/donations\<close> has one of two outcomes: it answers 201 and the store is the
  old one with exactly one complete donation row appended, of a positive amount (no other
  table, and so no stored total, is written); or it answers something else and the store
  is exactly as before.
\<close>

theorem donation_recorded_whole_or_not_at_all:
  "(\<exists>u a. t = ValidToken u \<and> bind_number amount = Inr a \<and> 0 < a
        \<and> post_api_donations f now t campId amount d =
            (reply 201 (MessageWith
               [Txt ''Donation of Rs'', Val amount, Txt '' recorded successfully!'']
               ''donId'' (FStr (generateUniqueId ''D'' now))),
             d\<lparr>DONATION := DONATION d @
                 [new_donation_1 (generateUniqueId ''D'' now) (primaryId u) (the campId) a now]\<rparr>))
   \<or> (status (fst (post_api_donations f now t campId amount d)) \<noteq> 201
       \<and> snd (post_api_donations f now t campId amount d) = d)"
proof (cases t)
  case (ValidToken u)
  then have "post_api_donations f now t campId amount d = donation_handler_1 f now u campId amount d"
    by (simp add: post_api_donations_def post_donations_1_def authenticated_def
        authenticateToken_def)
  with ValidToken donation_handler_1_outcome [of amount f now u campId d] show ?thesis
    by auto
qed (simp_all add: post_api_donations_def post_donations_1_def authenticated_def
      authenticateToken_def reply_def)

lemma show_nat_example: "show_nat 1700000000123 = ''1700000000123''"
  by (simp add: show_nat.simps digit_char_def)

lemmas donation_eval =
  post_api_donations_def post_donations_1_def post_donations_2_def authenticated_def
  guarded_def authenticateToken_def authorizeDonor_def donation_handler_1_def
  donation_handler_2_def missing_def js_le_zero_def execute_def select_campaign_status_def
  insert_donation_1_def insert_donation_2_def update_amount_collected_def nextval_def
  new_donation_1_def new_donation_2_def bind_number_def generateUniqueId_def
  show_nat_example campaign_unavailable_def donation_failed_1_def donation_failed_2_def
  Let_def reply_def no_faults_def store_def water_def school_def gift_of_b_def donor_a_def
  donor_b_def staff_member_def

theorem donation_recorded_whole_or_not_at_all_witness:
  "post_api_donations no_faults 1700000000123 (ValidToken donor_a) (Some ''CAMP_1'') (JNum 500)
       store =
     (reply 201 (MessageWith
        [Txt ''Donation of Rs'', Val (JNum 500), Txt '' recorded successfully!'']
        ''donId'' (FStr ''D_1700000000123'')),
      store\<lparr>DONATION := [gift_of_b,
          \<lparr>D_ID = Some ''D_1700000000123'', DON_ID = None, DONOR_ID = ''D_2'',
           D_CAMP_ID = ''CAMP_1'', AMOUNT = 500, PAYMENT_METHOD = Some ''ONLINE'',
           DONATION_DATE = Some 1700000000123, DON_DATE = None\<rparr>]\<rparr>)
   \<and> post_api_donations (\<lambda>k. k = 1) 1700000000123 (ValidToken donor_a) (Some ''CAMP_1'')
         (JNum 500) store =
       (reply 500 (Message [Txt ''Internal server error while recording donation.'']), store)
   \<and> post_api_donations no_faults 1700000000123 (ValidToken donor_a) (Some ''CAMP_1'')
         (JStr ''five'') store =
       (reply 500 (Message [Txt ''Internal server error while recording donation.'']), store)"
  using donation_recorded_whole_or_not_at_all
          [of "ValidToken donor_a" "JNum 500" no_faults 1700000000123 "Some ''CAMP_1''" store]
        donation_recorded_whole_or_not_at_all
          [of "ValidToken donor_a" "JNum 500" "\<lambda>k. k = 1" 1700000000123 "Some ''CAMP_1''" store]
  by (simp add: donation_eval StringToNumber_def trim_def is_space_def signed_decimal_def
      unsigned_decimal_def is_digit_def)

text \<open>The second handler commits the donation before it updates the campaign: when the
  update is lost, the donation stays and the request answers 500.\<close>

lemma second_donation_handler_partial:
  "post_donations_2 (\<lambda>k. k = 2) 1700000000123 (ValidToken donor_a) (Some ''CAMP_1'') (JNum 500)
       store =
     (reply 500 (Message [Txt ''Internal server error while recording donation.'']),
      store\<lparr>DONATION := [gift_of_b,
          \<lparr>D_ID = None, DON_ID = Some 42, DONOR_ID = ''D_2'', D_CAMP_ID = ''CAMP_1'',
           AMOUNT = 500, PAYMENT_METHOD = None, DONATION_DATE = None, DON_DATE = Some 19675\<rparr>],
        DONATION_SEQ := 42\<rparr>)"
  by (simp add: donation_eval)

text \<open>
  C5, as stated, fails: a donation to the campaign \<^verbatim>\<open>CAMP_2\<close>, which exists and is
  \<^verbatim>\<open>COMPLETED\<close>, is answered with 404, not with a conflict, and the answer is the very
  one given for \<^verbatim>\<open>CAMP_9\<close>, which does not exist.
\<close>

theorem inactive_campaign_answered_as_absent:
  "CAMP_ID school = ''CAMP_2'' \<and> school \<in> set (CAMPAIGN store)
   \<and> STATUS school = ''COMPLETED''
   \<and> ''CAMP_9'' \<notin> set (map CAMP_ID (CAMPAIGN store))
   \<and> \<not> ConflictError (fst (post_api_donations no_faults 1700000000123 (ValidToken donor_a)
         (Some ''CAMP_2'') (JNum 500) store))
   \<and> NotFoundError (fst (post_api_donations no_faults 1700000000123 (ValidToken donor_a)
         (Some ''CAMP_2'') (JNum 500) store))
   \<and> fst (post_api_donations no_faults 1700000000123 (ValidToken donor_a)
         (Some ''CAMP_2'') (JNum 500) store)
     = fst (post_api_donations no_faults 1700000000123 (ValidToken donor_a)
         (Some ''CAMP_9'') (JNum 500) store)"
  by (simp add: donation_eval ConflictError_def NotFoundError_def)

text \<open>
  C5, amended. A donor sends a valid donation for a campaign that exists and whose status
  is not \<^verbatim>\<open>ACTIVE\<close>, and the store answers the status query. The route answers 404 with
  the message that it also uses for an absent campaign, and the store is unchanged: no
  donation row is created.
\<close>

theorem donation_to_inactive_campaign:
  assumes "campaign_key d" and "c \<in> set (CAMPAIGN d)" and "STATUS c \<noteq> ''ACTIVE''"
    and "CAMP_ID c \<noteq> []" and "userType u = ''DONOR''"
    and "truthy amount" and "\<not> js_le_zero amount" and "\<not> f 0"
  shows "post_api_donations f now (ValidToken u) (Some (CAMP_ID c)) amount d =
           (reply 404 (Message [Txt ''Campaign not found or not currently active.'']), d)"
proof -
  have "filter (\<lambda>y. CAMP_ID y = CAMP_ID c) (CAMPAIGN d) = [c]"
    using filter_key_single [of CAMP_ID "CAMPAIGN d" c] assms(1,2)
    by (simp add: campaign_key_def)
  then have "select_campaign_status (CAMP_ID c) d = [STATUS c]"
    by (simp add: select_campaign_status_def)
  with assms(3-8) show ?thesis
    by (simp add: post_api_donations_def post_donations_1_def authenticated_def
        authenticateToken_def donation_handler_1_def missing_def execute_def
        campaign_unavailable_def Let_def)
qed

theorem donation_to_inactive_campaign_witness:
  "campaign_key store \<and> school \<in> set (CAMPAIGN store) \<and> STATUS school \<noteq> ''ACTIVE''
   \<and> CAMP_ID school \<noteq> [] \<and> userType donor_a = ''DONOR'' \<and> truthy (JNum 500)
   \<and> \<not> js_le_zero (JNum 500) \<and> \<not> no_faults 0
   \<and> post_api_donations no_faults 1700000000123 (ValidToken donor_a) (Some ''CAMP_2'')
         (JNum 500) store =
       (reply 404 (Message [Txt ''Campaign not found or not currently active.'']), store)
   \<and> DONATION store = [gift_of_b]"
proof -
  have h: "campaign_key store" "school \<in> set (CAMPAIGN store)" "STATUS school \<noteq> ''ACTIVE''"
    "CAMP_ID school \<noteq> []" "userType donor_a = ''DONOR''" "truthy (JNum 500)"
    "\<not> js_le_zero (JNum 500)" "\<not> no_faults 0"
    by (simp_all add: campaign_key_def store_def school_def water_def donor_a_def
        js_le_zero_def no_faults_def)
  show ?thesis
    using h donation_to_inactive_campaign
              [of store school donor_a "JNum 500" no_faults 1700000000123]
    by (simp add: school_def store_def)
qed

section \<open>Properties of the receipt route\<close>

lemma select_receipt_intro:
  assumes "D \<in> set (DONATION d)" "C \<in> set (CAMPAIGN d)" "R \<in> set (DONOR d)"
    "U \<in> set (NEW_CREDENTIALS d)" "D_CAMP_ID D = CAMP_ID C" "DONOR_ID D = R_DONOR_ID R"
    "R_USER_ID R = USER_ID U" "D_ID D = Some donId"
  shows "receipt_row D C R U \<in> set (select_receipt donId d)"
  using assms by (auto simp: select_receipt_def)

lemma select_receipt_elim:
  assumes "r \<in> set (select_receipt donId d)"
  shows "\<exists>D \<in> set (DONATION d). D_ID D = Some donId \<and> rc_D_ID r = D_ID D
           \<and> rc_DONOR_ID r = DONOR_ID D"
  using assms by (auto simp: select_receipt_def receipt_row_def split: if_splits)

lemma select_receipt_absent:
  assumes "Some donId \<notin> set (map D_ID (DONATION d))"
  shows "select_receipt donId d = []"
proof (cases "select_receipt donId d")
  case (Cons r rest)
  then have "r \<in> set (select_receipt donId d)" by simp
  then obtain D where "D \<in> set (DONATION d)" "D_ID D = Some donId"
    using select_receipt_elim by blast
  then have "Some donId \<in> set (map D_ID (DONATION d))" by force
  with assms show ?thesis by contradiction
qed simp

lemma receipt_available_row:
  "receipt_available d donId x \<Longrightarrow> x \<in> set (DONATION d) \<and> D_ID x = Some donId"
  by (simp add: receipt_available_def)

lemma receipt_available_owner:
  "receipt_available d donId x \<Longrightarrow> y \<in> set (DONATION d) \<Longrightarrow> D_ID y = Some donId
     \<Longrightarrow> DONOR_ID y = DONOR_ID x"
  unfolding receipt_available_def list_all_iff by blast

lemma receipt_available_campaign:
  "receipt_available d donId x \<Longrightarrow> \<exists>C \<in> set (CAMPAIGN d). D_CAMP_ID x = CAMP_ID C"
  unfolding receipt_available_def by auto

lemma receipt_available_donor:
  "receipt_available d donId x \<Longrightarrow>
     \<exists>R \<in> set (DONOR d). \<exists>U \<in> set (NEW_CREDENTIALS d).
        DONOR_ID x = R_DONOR_ID R \<and> R_USER_ID R = USER_ID U"
  unfolding receipt_available_def list_ex_iff by (auto simp: eq_commute [of "DONOR_ID x"])

lemma select_receipt_available:
  assumes "receipt_available d donId x"
  shows "\<exists>r rest. select_receipt donId d = r # rest \<and> rc_D_ID r = Some donId
           \<and> rc_DONOR_ID r = DONOR_ID x"
proof -
  have x: "x \<in> set (DONATION d)" "D_ID x = Some donId"
    using receipt_available_row [OF assms] by simp_all
  obtain C where C: "C \<in> set (CAMPAIGN d)" "D_CAMP_ID x = CAMP_ID C"
    using receipt_available_campaign [OF assms] by (elim bexE)
  obtain R U where R: "R \<in> set (DONOR d)" "DONOR_ID x = R_DONOR_ID R"
    and U: "U \<in> set (NEW_CREDENTIALS d)" "R_USER_ID R = USER_ID U"
    using receipt_available_donor [OF assms] by (elim bexE conjE)
  have "receipt_row x C R U \<in> set (select_receipt donId d)"
    by (rule select_receipt_intro [OF x(1) C(1) R(1) U(1) C(2) R(2) U(2) x(2)])
  then obtain r rest where sel: "select_receipt donId d = r # rest"
    by (cases "select_receipt donId d") auto
  then have "r \<in> set (select_receipt donId d)" by simp
  then have "\<exists>D \<in> set (DONATION d). D_ID D = Some donId \<and> rc_D_ID r = D_ID D
      \<and> rc_DONOR_ID r = DONOR_ID D"
    by (rule select_receipt_elim)
  then obtain D where D: "D \<in> set (DONATION d)" "D_ID D = Some donId"
    "rc_D_ID r = D_ID D" "rc_DONOR_ID r = DONOR_ID D"
    by (elim bexE conjE)
  have "rc_D_ID r = Some donId" "rc_DONOR_ID r = DONOR_ID x"
    using D receipt_available_owner [OF assms D(1,2)] by simp_all
  with sel show ?thesis by (intro exI conjI)
qed

lemma get_api_donation_valid:
  "get_api_donation (ValidToken u) donId d = receipt_handler_1 u donId d"
  by (simp add: get_api_donation_def get_donation_1_def authenticated_def authenticateToken_def)

lemma get_api_donation_reads:
  "snd (get_api_donation t donId d) = d"
  by (cases t)
    (simp_all add: get_api_donation_def get_donation_1_def authenticated_def
      authenticateToken_def receipt_handler_1_def split: list.splits)

text \<open>
  C7. The receipt route never changes the store. For an authenticated caller it answers
  404 when no donation has the id. When the query finds the donation, a donor whose
  profile id is not the donation's \<^verbatim>\<open>DONOR_ID\<close> gets 403, and every staff caller gets 200
  with a receipt of that donation.
\<close>

theorem receipt_access:
  "snd (get_api_donation t donId d) = d
   \<and> (Some donId \<notin> set (map D_ID (DONATION d)) \<longrightarrow>
        get_api_donation (ValidToken u) donId d =
          (reply 404 (Message [Txt ''Donation not found.'']), d))
   \<and> (receipt_available d donId x \<and> userType u = ''DONOR'' \<and> primaryId u \<noteq> DONOR_ID x \<longrightarrow>
        get_api_donation (ValidToken u) donId d =
          (reply 403 (Message [Txt ''Access denied. You do not own this receipt.'']), d))
   \<and> (receipt_available d donId x \<and> userType u = ''STAFF'' \<longrightarrow>
        (\<exists>r. get_api_donation (ValidToken u) donId d = (reply 200 (DonationBody r), d)
           \<and> rc_D_ID r = Some donId \<and> rc_DONOR_ID r = DONOR_ID x))"
proof (intro conjI impI)
  show "snd (get_api_donation t donId d) = d"
    by (rule get_api_donation_reads)
next
  assume "Some donId \<notin> set (map D_ID (DONATION d))"
  then have "select_receipt donId d = []"
    by (rule select_receipt_absent)
  then show "get_api_donation (ValidToken u) donId d =
      (reply 404 (Message [Txt ''Donation not found.'']), d)"
    by (simp add: get_api_donation_valid receipt_handler_1_def)
next
  assume h: "receipt_available d donId x \<and> userType u = ''DONOR'' \<and> primaryId u \<noteq> DONOR_ID x"
  then have av: "receipt_available d donId x" and donor: "userType u = ''DONOR''"
    and other: "DONOR_ID x \<noteq> primaryId u"
    by auto
  obtain r rest where sel: "select_receipt donId d = r # rest"
    and owner: "rc_DONOR_ID r = DONOR_ID x"
    using select_receipt_available [OF av] by blast
  show "get_api_donation (ValidToken u) donId d =
      (reply 403 (Message [Txt ''Access denied. You do not own this receipt.'']), d)"
    by (simp add: get_api_donation_valid receipt_handler_1_def sel owner donor other)
next
  assume h: "receipt_available d donId x \<and> userType u = ''STAFF''"
  then have av: "receipt_available d donId x" and staff: "userType u = ''STAFF''"
    by auto
  obtain r rest where sel: "select_receipt donId d = r # rest"
    and rid: "rc_D_ID r = Some donId" and owner: "rc_DONOR_ID r = DONOR_ID x"
    using select_receipt_available [OF av] by blast
  have ok: "get_api_donation (ValidToken u) donId d = (reply 200 (DonationBody r), d)"
    by (simp add: get_api_donation_valid receipt_handler_1_def sel staff)
  show "\<exists>r. get_api_donation (ValidToken u) donId d = (reply 200 (DonationBody r), d)
      \<and> rc_D_ID r = Some donId \<and> rc_DONOR_ID r = DONOR_ID x"
    by (intro exI [of _ r] conjI ok rid owner)
qed

lemmas receipt_eval =
  get_api_donation_def get_donation_1_def get_donation_2_def authenticated_def
  authenticateToken_def receipt_handler_1_def receipt_handler_2_def select_receipt_def
  select_receipt_2_def receipt_row_def ora_str_def reply_def store_def water_def school_def
  gift_of_b_def donor_a_def donor_b_def staff_member_def

theorem receipt_access_witness:
  "receipt_available store ''D_1700000000000'' gift_of_b
   \<and> userType donor_a = ''DONOR'' \<and> primaryId donor_a \<noteq> DONOR_ID gift_of_b
   \<and> userType staff_member = ''STAFF''
   \<and> Some ''D_1'' \<notin> set (map D_ID (DONATION store))
   \<and> get_api_donation (ValidToken donor_a) ''D_1700000000000'' store =
       (reply 403 (Message [Txt ''Access denied. You do not own this receipt.'']), store)
   \<and> get_api_donation (ValidToken staff_member) ''D_1700000000000'' store =
       (reply 200 (DonationBody
          \<lparr>rc_D_ID = Some ''D_1700000000000'', rc_DONOR_ID = ''D_3'', rc_AMOUNT = 750,
           rc_DONATION_DATE = Some 1700000000000, rc_PAYMENT_METHOD = Some ''ONLINE'',
           CAMPAIGN_NAME = ''Water'', DONOR_NAME = ''Bina '', DONOR_EMAIL = ''b@mail.org''\<rparr>),
        store)
   \<and> get_api_donation (ValidToken staff_member) ''D_1'' store =
       (reply 404 (Message [Txt ''Donation not found.'']), store)"
proof -
  have av: "receipt_available store ''D_1700000000000'' gift_of_b"
    by (simp add: receipt_available_def store_def gift_of_b_def water_def school_def)
  have who: "userType donor_a = ''DONOR''" "primaryId donor_a \<noteq> DONOR_ID gift_of_b"
    "userType staff_member = ''STAFF''"
    by (simp_all add: donor_a_def gift_of_b_def staff_member_def)
  have absent: "Some ''D_1'' \<notin> set (map D_ID (DONATION store))"
    by (simp add: store_def gift_of_b_def)
  have ok: "get_api_donation (ValidToken staff_member) ''D_1700000000000'' store =
       (reply 200 (DonationBody
          \<lparr>rc_D_ID = Some ''D_1700000000000'', rc_DONOR_ID = ''D_3'', rc_AMOUNT = 750,
           rc_DONATION_DATE = Some 1700000000000, rc_PAYMENT_METHOD = Some ''ONLINE'',
           CAMPAIGN_NAME = ''Water'', DONOR_NAME = ''Bina '', DONOR_EMAIL = ''b@mail.org''\<rparr>),
        store)"
    by (simp add: receipt_eval)
  have forbidden: "get_api_donation (ValidToken donor_a) ''D_1700000000000'' store =
       (reply 403 (Message [Txt ''Access denied. You do not own this receipt.'']), store)"
    by (rule receipt_access
          [of "ValidToken donor_a" "''D_1700000000000''" store donor_a gift_of_b,
            THEN conjunct2, THEN conjunct2, THEN conjunct1, THEN mp,
            OF conjI [OF av conjI [OF who(1) who(2)]]])
  have not_found: "get_api_donation (ValidToken staff_member) ''D_1'' store =
       (reply 404 (Message [Txt ''Donation not found.'']), store)"
    by (rule receipt_access
          [of "ValidToken staff_member" "''D_1''" store staff_member gift_of_b,
            THEN conjunct2, THEN conjunct1, THEN mp, OF absent])
  show ?thesis
    by (intro conjI av who absent ok forbidden not_found)
qed

section \<open>The two handlers of a path compared\<close>

text \<open>
  C9. On the same request and the same store the two handlers of
  \<^verbatim>\<open>POST /api/donations\<close> differ in what they store and in what they answer: the first
  writes a row keyed by \<^verbatim>\<open>D_ID\<close> and leaves the campaigns alone, the second writes a row
  keyed by \<^verbatim>\<open>DON_ID\<close>, advances the sequence and adds to \<^verbatim>\<open>AMOUNT_COLLECTED\<close>; for a
  campaign that is not active the first answers 404 and the second records the donation.
  The two handlers of \<^verbatim>\<open>GET /api/donations/:donId\<close> differ as well: for the same
  donation the first answers 200 with the receipt and the second answers 500.
\<close>

theorem duplicate_handlers_diverge:
  "post_donations_1 no_faults 1700000000123 (ValidToken donor_a) (Some ''CAMP_1'') (JNum 500) store
     \<noteq> post_donations_2 no_faults 1700000000123 (ValidToken donor_a) (Some ''CAMP_1'') (JNum 500)
         store
   \<and> map D_ID (DONATION (snd (post_donations_1 no_faults 1700000000123 (ValidToken donor_a)
        (Some ''CAMP_1'') (JNum 500) store)))
       = [Some ''D_1700000000000'', Some ''D_1700000000123'']
   \<and> map DON_ID (DONATION (snd (post_donations_1 no_faults 1700000000123 (ValidToken donor_a)
        (Some ''CAMP_1'') (JNum 500) store)))
       = [None, None]
   \<and> map D_ID (DONATION (snd (post_donations_2 no_faults 1700000000123 (ValidToken donor_a)
        (Some ''CAMP_1'') (JNum 500) store)))
       = [Some ''D_1700000000000'', None]
   \<and> map DON_ID (DONATION (snd (post_donations_2 no_faults 1700000000123 (ValidToken donor_a)
        (Some ''CAMP_1'') (JNum 500) store)))
       = [None, Some 42]
   \<and> map AMOUNT_COLLECTED (CAMPAIGN (snd (post_donations_1 no_faults 1700000000123
        (ValidToken donor_a) (Some ''CAMP_1'') (JNum 500) store)))
       = [Some 0, Some 0]
   \<and> map AMOUNT_COLLECTED (CAMPAIGN (snd (post_donations_2 no_faults 1700000000123
        (ValidToken donor_a) (Some ''CAMP_1'') (JNum 500) store)))
       = [Some 500, Some 0]
   \<and> body (fst (post_donations_1 no_faults 1700000000123 (ValidToken donor_a)
        (Some ''CAMP_1'') (JNum 500) store))
       = MessageWith [Txt ''Donation of Rs'', Val (JNum 500), Txt '' recorded successfully!'']
           ''donId'' (FStr ''D_1700000000123'')
   \<and> body (fst (post_donations_2 no_faults 1700000000123 (ValidToken donor_a)
        (Some ''CAMP_1'') (JNum 500) store))
       = MessageWith [Txt ''Donation successfully recorded.''] ''donId'' (FNat 42)
   \<and> status (fst (post_donations_1 no_faults 1700000000123 (ValidToken donor_a)
        (Some ''CAMP_2'') (JNum 500) store)) = 404
   \<and> status (fst (post_donations_2 no_faults 1700000000123 (ValidToken donor_a)
        (Some ''CAMP_2'') (JNum 500) store)) = 201
   \<and> get_donation_1 (ValidToken staff_member) ''D_1700000000000'' store
       \<noteq> get_donation_2 (ValidToken staff_member) ''D_1700000000000'' store
   \<and> status (fst (get_donation_1 (ValidToken staff_member) ''D_1700000000000'' store)) = 200
   \<and> get_donation_2 (ValidToken staff_member) ''D_1700000000000'' store
       = (reply 500 (Message [Txt ''Internal server error while retrieving receipt data.'']),
          store)"
proof -
  have post: "post_donations_1 no_faults 1700000000123 (ValidToken donor_a) (Some ''CAMP_1'')
        (JNum 500) store
     \<noteq> post_donations_2 no_faults 1700000000123 (ValidToken donor_a) (Some ''CAMP_1'') (JNum 500)
         store"
    by (simp add: donation_eval)
  have get: "get_donation_1 (ValidToken staff_member) ''D_1700000000000'' store
       \<noteq> get_donation_2 (ValidToken staff_member) ''D_1700000000000'' store"
    by (simp add: receipt_eval)
  show ?thesis
    by (intro conjI post get) (simp_all add: donation_eval receipt_eval)
qed

section \<open>Properties of campaign creation\<close>








section \<open>The matcher and the language of a pattern\<close>

lemma nullable_iff: "nullable r \<longleftrightarrow> [] \<in> lang r"
  by (induction r) (auto simp: conc_def intro: star.intros)

lemma conc_cons:
  "c # w \<in> conc A B \<longleftrightarrow>
     ([] \<in> A \<and> c # w \<in> B) \<or> (\<exists>u v. w = u @ v \<and> c # u \<in> A \<and> v \<in> B)"
proof
  assume "c # w \<in> conc A B"
  then obtain u v where uv: "c # w = u @ v" "u \<in> A" "v \<in> B"
    by (auto simp: conc_def)
  show "([] \<in> A \<and> c # w \<in> B) \<or> (\<exists>u v. w = u @ v \<and> c # u \<in> A \<and> v \<in> B)"
  proof (cases u)
    case Nil
    with uv show ?thesis by simp
  next
    case (Cons x u')
    with uv have "w = u' @ v" "c # u' \<in> A" by simp_all
    with uv(3) show ?thesis by blast
  qed
next
  assume "([] \<in> A \<and> c # w \<in> B) \<or> (\<exists>u v. w = u @ v \<and> c # u \<in> A \<and> v \<in> B)"
  then show "c # w \<in> conc A B"
  proof
    assume "[] \<in> A \<and> c # w \<in> B"
    then have "[] @ (c # w) \<in> conc A B" unfolding conc_def by blast
    then show ?thesis by simp
  next
    assume "\<exists>u v. w = u @ v \<and> c # u \<in> A \<and> v \<in> B"
    then obtain u v where "w = u @ v" "c # u \<in> A" "v \<in> B" by blast
    then have "(c # u) @ v \<in> conc A B" unfolding conc_def by blast
    with \<open>w = u @ v\<close> show ?thesis by simp
  qed
qed

lemma star_cons_elim:
  assumes "x \<in> star A" and "x = c # w"
  shows "\<exists>u v. w = u @ v \<and> c # u \<in> A \<and> v \<in> star A"
  using assms
proof (induction arbitrary: w rule: star.induct)
  case star_empty
  then show ?case by simp
next
  case (star_step u v)
  show ?case
  proof (cases u)
    case Nil
    with star_step show ?thesis by simp
  next
    case (Cons y u')
    with star_step.prems have "w = u' @ v" "y = c" by simp_all
    with Cons star_step.hyps(1,2) show ?thesis by blast
  qed
qed

lemma star_cons:
  "c # w \<in> star A \<longleftrightarrow> (\<exists>u v. w = u @ v \<and> c # u \<in> A \<and> v \<in> star A)"
proof
  assume "c # w \<in> star A"
  then show "\<exists>u v. w = u @ v \<and> c # u \<in> A \<and> v \<in> star A"
    by (rule star_cons_elim) simp
next
  assume "\<exists>u v. w = u @ v \<and> c # u \<in> A \<and> v \<in> star A"
  then obtain u v where "w = u @ v" "c # u \<in> A" "v \<in> star A" by blast
  then have "(c # u) @ v \<in> star A" by (intro star_step)
  with \<open>w = u @ v\<close> show "c # w \<in> star A" by simp
qed

lemma deriv_lang: "w \<in> lang (deriv c r) \<longleftrightarrow> c # w \<in> lang r"
proof (induction r arbitrary: w)
  case (Cat r s)
  have "w \<in> conc (lang (deriv c r)) (lang s) \<longleftrightarrow>
          (\<exists>u v. w = u @ v \<and> c # u \<in> lang r \<and> v \<in> lang s)"
    by (auto simp: conc_def Cat.IH(1))
  then show ?case
    by (simp add: conc_cons nullable_iff Cat.IH(2)) blast
next
  case (Star r)
  have "w \<in> conc (lang (deriv c r)) (star (lang r)) \<longleftrightarrow>
          (\<exists>u v. w = u @ v \<and> c # u \<in> lang r \<and> v \<in> star (lang r))"
    by (auto simp: conc_def Star.IH)
  then show ?case
    by (simp add: star_cons)
qed auto

lemma rx_test_iff: "rx_test r s \<longleftrightarrow> s \<in> lang r"
  by (induction s arbitrary: r) (simp_all add: nullable_iff deriv_lang)



lemma star_Cls: "s \<in> star {[c] | c. P c} \<longleftrightarrow> list_all P s"
proof
  assume "s \<in> star {[c] | c. P c}"
  then show "list_all P s"
    by (induction rule: star.induct) auto
next
  assume "list_all P s"
  then show "s \<in> star {[c] | c. P c}"
  proof (induction s)
    case Nil
    show ?case by (rule star_empty)
  next
    case (Cons c w)
    then have "[c] @ w \<in> star {[c] | c. P c}"
      by (intro star_step) auto
    then show ?case by simp
  qed
qed

lemma lang_Plus_Cls: "s \<in> lang (Plus (Cls P)) \<longleftrightarrow> s \<noteq> [] \<and> list_all P s"
proof (cases s)
  case Nil
  then show ?thesis by (simp add: Plus_def conc_def)
next
  case (Cons c w)
  then show ?thesis by (auto simp: Plus_def conc_cons star_Cls)
qed

lemma lang_Cat_iff:
  "s \<in> lang (Cat r q) \<longleftrightarrow> (\<exists>u v. s = u @ v \<and> u \<in> lang r \<and> v \<in> lang q)"
  by (auto simp: conc_def)

lemma lang_char: "s \<in> lang (Cls (\<lambda>c. c = x)) \<longleftrightarrow> s = [x]"
  by auto

lemma email_rx_iff: "rx_test email_rx s \<longleftrightarrow> email_shape s"
proof
  assume "rx_test email_rx s"
  then have "s \<in> lang email_rx" by (simp add: rx_test_iff)
  then obtain a r1 where 1: "s = a @ r1" "a \<in> lang (Plus (Cls non_space))"
    "r1 \<in> lang (Cat (Cls (\<lambda>c. c = CHR ''@''))
             (Cat (Plus (Cls non_space))
                (Cat (Cls (\<lambda>c. c = CHR ''.'')) (Plus (Cls non_space)))))"
    unfolding email_rx_def lang_Cat_iff [of s] by blast
  from 1(3) obtain sep1 r2 where 2: "r1 = sep1 @ r2" "sep1 \<in> lang (Cls (\<lambda>c. c = CHR ''@''))"
    "r2 \<in> lang (Cat (Plus (Cls non_space))
             (Cat (Cls (\<lambda>c. c = CHR ''.'')) (Plus (Cls non_space))))"
    unfolding lang_Cat_iff [of r1] by blast
  from 2(3) obtain b r3 where 3: "r2 = b @ r3" "b \<in> lang (Plus (Cls non_space))"
    "r3 \<in> lang (Cat (Cls (\<lambda>c. c = CHR ''.'')) (Plus (Cls non_space)))"
    unfolding lang_Cat_iff [of r2] by blast
  from 3(3) obtain sep2 c where 4: "r3 = sep2 @ c" "sep2 \<in> lang (Cls (\<lambda>c. c = CHR ''.''))"
    "c \<in> lang (Plus (Cls non_space))"
    unfolding lang_Cat_iff [of r3] by blast
  have sep1: "sep1 = ''@''" and sep2: "sep2 = ''.''"
    using 2(2) 4(2) by (simp_all only: lang_char)
  have parts: "a \<noteq> []" "list_all non_space a" "b \<noteq> []" "list_all non_space b"
    "c \<noteq> []" "list_all non_space c"
    using 1(2) 3(2) 4(3) by (simp_all add: lang_Plus_Cls)
  have "s = a @ ''@'' @ b @ ''.'' @ c"
    using 1(1) 2(1) 3(1) 4(1) sep1 sep2 by simp
  with parts show "email_shape s"
    unfolding email_shape_def by (intro exI [of _ a] exI [of _ b] exI [of _ c]) simp
next
  assume "email_shape s"
  then obtain a b c where s: "s = a @ ''@'' @ b @ ''.'' @ c"
    and parts: "a \<noteq> []" "b \<noteq> []" "c \<noteq> []" "list_all non_space (a @ b @ c)"
    unfolding email_shape_def by blast
  have a: "a \<in> lang (Plus (Cls non_space))" and b: "b \<in> lang (Plus (Cls non_space))"
    and c: "c \<in> lang (Plus (Cls non_space))"
    using parts by (simp_all add: lang_Plus_Cls)
  have sep1: "''@'' \<in> lang (Cls (\<lambda>c. c = CHR ''@''))"
    and sep2: "''.'' \<in> lang (Cls (\<lambda>c. c = CHR ''.''))"
    by simp_all
  have "''.'' @ c \<in> lang (Cat (Cls (\<lambda>c. c = CHR ''.'')) (Plus (Cls non_space)))"
    unfolding lang_Cat_iff using sep2 c by blast
  then have "b @ ''.'' @ c \<in> lang (Cat (Plus (Cls non_space))
             (Cat (Cls (\<lambda>c. c = CHR ''.'')) (Plus (Cls non_space))))"
    unfolding lang_Cat_iff [of "b @ ''.'' @ c"] using b by blast
  then have "''@'' @ b @ ''.'' @ c \<in> lang (Cat (Cls (\<lambda>c. c = CHR ''@''))
             (Cat (Plus (Cls non_space))
                (Cat (Cls (\<lambda>c. c = CHR ''.'')) (Plus (Cls non_space)))))"
    unfolding lang_Cat_iff [of "''@'' @ b @ ''.'' @ c"] using sep1 by blast
  then have "a @ ''@'' @ b @ ''.'' @ c \<in> lang email_rx"
    unfolding email_rx_def lang_Cat_iff [of "a @ ''@'' @ b @ ''.'' @ c"] using a by blast
  then show "rx_test email_rx s"
    by (simp only: rx_test_iff s)
qed

section \<open>Properties of signup\<close>












end
